theory Spec2Isabelle
  imports Main
begin

section \<open>Python values\<close>

text \<open>
  The values that reach the alpha-model contract. Dictionary keys are hashable; the
  hashable values modelled here are \<open>None\<close>, booleans, integers and strings. A dictionary
  is an association list in insertion order, which is the order \<open>dict.items()\<close> iterates in.
  Floating-point numbers, tuples and user-defined objects are outside this universe.
  Every dictionary is such a list; the theorems below hold for all such lists.
\<close>

datatype atom = PyNone | PyBool bool | PyInt int | PyStr string

datatype pyval = Atom atom | PyList "pyval list" | PyDict "(atom \<times> pyval) list"

text \<open>\<open>isinstance(v, dict)\<close> and \<open>isinstance(v, str)\<close>.\<close>

fun isinstance_dict :: "pyval \<Rightarrow> bool" where
  "isinstance_dict (PyDict kvs) = True"
| "isinstance_dict v = False"

fun isinstance_str :: "pyval \<Rightarrow> bool" where
  "isinstance_str (Atom (PyStr s)) = True"
| "isinstance_str v = False"

text \<open>\<open>str(type(v))\<close>, the text that \<open>"%s" % type(v)\<close> inserts.\<close>

fun type_str :: "pyval \<Rightarrow> string" where
  "type_str (Atom PyNone) = ''<class 'NoneType'>''"
| "type_str (Atom (PyBool b)) = ''<class 'bool'>''"
| "type_str (Atom (PyInt i)) = ''<class 'int'>''"
| "type_str (Atom (PyStr s)) = ''<class 'str'>''"
| "type_str (PyList xs) = ''<class 'list'>''"
| "type_str (PyDict kvs) = ''<class 'dict'>''"

text \<open>
  \<open>str(k)\<close> for a key \<open>k\<close>, the text that \<open>"{}".format(k)\<close> inserts: a string is
  inserted as it is, an integer in decimal (the interpreter's optional limit on the
  number of digits of such a conversion is not modelled).
\<close>

fun digits :: "nat \<Rightarrow> string" where
  "digits n = (if n < 10 then [''0123456789'' ! n]
               else digits (n div 10) @ [''0123456789'' ! (n mod 10)])"

declare digits.simps [simp del]

fun py_str :: "atom \<Rightarrow> string" where
  "py_str PyNone = ''None''"
| "py_str (PyBool b) = (if b then ''True'' else ''False'')"
| "py_str (PyInt i) = (if i < 0 then ''-'' @ digits (nat (- i)) else digits (nat i))"
| "py_str (PyStr s) = s"

section \<open>Exceptions\<close>

text \<open>
  The exception classes involved: the built-in ones the module raises, their built-in
  ancestors, and the module's own \<open>class AlphaModelException(Exception)\<close>.
  \<open>superclass\<close> is the direct base class of each.
\<close>

datatype exc_class =
  BaseException | Exception | TypeError | ValueError | RuntimeError
  | NotImplementedError | AlphaModelException

fun superclass :: "exc_class \<Rightarrow> exc_class option" where
  "superclass BaseException = None"
| "superclass Exception = Some BaseException"
| "superclass TypeError = Some Exception"
| "superclass ValueError = Some Exception"
| "superclass RuntimeError = Some Exception"
| "superclass NotImplementedError = Some RuntimeError"
| "superclass AlphaModelException = Some Exception"

fun depth :: "exc_class \<Rightarrow> nat" where
  "depth BaseException = 0"
| "depth Exception = 1"
| "depth NotImplementedError = 3"
| "depth c = 2"

text \<open>\<open>issubclass c d\<close>: \<open>d\<close> is \<open>c\<close> or is reached from \<open>c\<close> through direct base classes.\<close>

function issubclass :: "exc_class \<Rightarrow> exc_class \<Rightarrow> bool" where
  "issubclass c d =
     (c = d \<or> (case superclass c of None \<Rightarrow> False | Some b \<Rightarrow> issubclass b d))"
  by pat_completeness auto
termination
  by (relation "measure (\<lambda>(c, d). depth c)") (auto elim: superclass.elims)

declare issubclass.simps [simp del]

text \<open>A raised exception: its class and its message.\<close>

datatype exn = Exn (exn_class: exc_class) (message: string)

text \<open>\<open>except handler:\<close> catches an exception whose class is a subclass of \<open>handler\<close>.\<close>

definition catches :: "exc_class \<Rightarrow> exn \<Rightarrow> bool" where
  "catches handler e = issubclass (exn_class e) handler"

section \<open>The alpha model\<close>

text \<open>
  The instance attributes \<open>self.id\<close>, \<open>self.sources_dict\<close> and \<open>self._name\<close>.
\<close>

record AlphaModel =
  id_attr :: pyval
  sources_dict :: pyval
  name_attr :: pyval

text \<open>
  \<open>existing_sources\<close> is imported from a module outside the repository. It is a
  parameter here: \<open>existing_sources k\<close> is the outcome of \<open>k in existing_sources\<close>.

  The loop of \<open>_check_source_list\<close> over \<open>sources.items()\<close>: it raises at the first
  key, in iteration order, that is not an existing source; the parameters are bound
  and not used.
\<close>

fun check_items :: "(atom \<Rightarrow> bool) \<Rightarrow> (atom \<times> pyval) list \<Rightarrow> exn option" where
  "check_items existing_sources [] = None"
| "check_items existing_sources ((source, params) # rest) =
     (if \<not> existing_sources source
      then Some (Exn ValueError (''Source '' @ py_str source @ '' does not exist!''))
      else check_items existing_sources rest)"

text \<open>\<open>sources.items()\<close>; it is only reached for a dictionary.\<close>

fun items :: "pyval \<Rightarrow> (atom \<times> pyval) list" where
  "items (PyDict kvs) = kvs"
| "items v = []"

definition check_source_list :: "(atom \<Rightarrow> bool) \<Rightarrow> pyval \<Rightarrow> exn + pyval" where
  "check_source_list existing_sources sources =
     (if \<not> isinstance_dict sources
      then Inl (Exn TypeError
        ''Alpha Model needs to be given a dictionary of sources and their parameters'')
      else case check_items existing_sources (items sources) of
             Some e \<Rightarrow> Inl e
           | None \<Rightarrow> Inr sources)"

text \<open>
  \<open>AlphaModel.__init__\<close>: a failed validation leaves no instance; otherwise the three
  attributes are set, \<open>_name\<close> to \<open>None\<close>.
\<close>

definition AlphaModel_init :: "(atom \<Rightarrow> bool) \<Rightarrow> pyval \<Rightarrow> pyval \<Rightarrow> exn + AlphaModel" where
  "AlphaModel_init existing_sources model_id sources =
     (case check_source_list existing_sources sources of
        Inl e \<Rightarrow> Inl e
      | Inr checked \<Rightarrow>
          Inr \<lparr>id_attr = model_id, sources_dict = checked, name_attr = Atom PyNone\<rparr>)"

text \<open>
  The \<open>name\<close> property. Each operation returns its outcome together with the instance
  as it is after the call.
\<close>

definition name_get :: "AlphaModel \<Rightarrow> (exn + pyval) \<times> AlphaModel" where
  "name_get self =
     (if name_attr self \<noteq> Atom PyNone
      then (Inr (name_attr self), self)
      else (Inl (Exn ValueError ''Name has not been set.''), self))"

definition name_set :: "AlphaModel \<Rightarrow> pyval \<Rightarrow> (exn + unit) \<times> AlphaModel" where
  "name_set self v =
     (if isinstance_str v
      then (Inr (), self\<lparr>name_attr := v\<rparr>)
      else (Inl (Exn ValueError (''Name has to be a string and not '' @ type_str v)), self))"

text \<open>The bodies of the two abstract methods.\<close>

definition update :: "AlphaModel \<Rightarrow> pyval \<Rightarrow> (exn + unit) \<times> AlphaModel" where
  "update self dt = (Inl (Exn NotImplementedError ''Should implement update()''), self)"

definition forecast :: "AlphaModel \<Rightarrow> (exn + pyval) \<times> AlphaModel" where
  "forecast self = (Inl (Exn NotImplementedError ''Should implement forecast()''), self)"

section \<open>Sequences of calls\<close>

text \<open>
  The calls a holder of an instance can make on the members the class defines, and the
  instance after a sequence of them. A call that raises is followed by the next call,
  as when the caller handles the exception.
\<close>

datatype call = GetName | SetName pyval | Update pyval | Forecast

fun step :: "AlphaModel \<Rightarrow> call \<Rightarrow> AlphaModel" where
  "step self GetName = snd (name_get self)"
| "step self (SetName v) = snd (name_set self v)"
| "step self (Update dt) = snd (update self dt)"
| "step self Forecast = snd (forecast self)"

definition run :: "AlphaModel \<Rightarrow> call list \<Rightarrow> AlphaModel" where
  "run self calls = foldl step self calls"

section \<open>Concrete inputs\<close>

text \<open>A registry with two sources and some instances, for concrete evaluations.\<close>

definition registry :: "atom \<Rightarrow> bool" where
  "registry k = (k \<in> set [PyStr ''momentum_factor'', PyStr ''sentiment''])"

definition momentum_config :: "(atom \<times> pyval) list" where
  "momentum_config =
     [(PyStr ''momentum_factor'', PyDict [(PyStr ''window'', Atom (PyInt 20))])]"

definition bogus_config :: "(atom \<times> pyval) list" where
  "bogus_config =
     [(PyStr ''momentum_factor'', PyDict []), (PyStr ''bogus_source'', PyDict [])]"

definition momentum_model :: AlphaModel where
  "momentum_model =
     \<lparr>id_attr = Atom (PyInt 1), sources_dict = PyDict momentum_config,
      name_attr = Atom PyNone\<rparr>"

definition named_model :: AlphaModel where
  "named_model = momentum_model\<lparr>name_attr := Atom (PyStr ''MomentumV1'')\<rparr>"

section \<open>Auxiliary facts\<close>

lemma issubclass_builtin:
  "issubclass TypeError Exception" "issubclass ValueError Exception"
  "\<not> issubclass TypeError AlphaModelException" "\<not> issubclass ValueError AlphaModelException"
  by (simp_all add: issubclass.simps)

lemma check_items_all_existing:
  "(\<And>k. k \<in> fst ` set kvs \<Longrightarrow> existing_sources k) \<Longrightarrow> check_items existing_sources kvs = None"
  by (induction kvs) auto

lemma check_items_some_missing:
  "k \<in> fst ` set kvs \<Longrightarrow> \<not> existing_sources k \<Longrightarrow>
   \<exists>k'. k' \<in> fst ` set kvs \<and> \<not> existing_sources k' \<and>
     check_items existing_sources kvs =
       Some (Exn ValueError (''Source '' @ py_str k' @ '' does not exist!''))"
proof (induction kvs)
  case Nil
  then show ?case by simp
next
  case (Cons kv kvs)
  obtain source params where kv: "kv = (source, params)" by (cases kv)
  show ?case
  proof (cases "existing_sources source")
    case False
    with kv show ?thesis by auto
  next
    case True
    with Cons.prems kv have "k \<in> fst ` set kvs" by auto
    from Cons.IH [OF this Cons.prems(2)] True kv show ?thesis by auto
  qed
qed

text \<open>The key named in the message is the first missing one in iteration order.\<close>

lemma check_items_first_missing:
  "check_items existing_sources kvs =
     (case find (\<lambda>k. \<not> existing_sources k) (map fst kvs) of
        None \<Rightarrow> None
      | Some k \<Rightarrow> Some (Exn ValueError (''Source '' @ py_str k @ '' does not exist!'')))"
  by (induction kvs) auto

lemma check_items_keys_only:
  "map fst kvs = map fst kvs' \<Longrightarrow>
   check_items existing_sources kvs = check_items existing_sources kvs'"
  by (simp add: check_items_first_missing)

lemma check_items_class:
  "check_items existing_sources kvs = Some e \<Longrightarrow> exn_class e = ValueError"
  by (induction kvs) (auto split: if_splits)

lemma check_source_list_class:
  "check_source_list existing_sources sources = Inl e \<Longrightarrow>
   exn_class e = TypeError \<or> exn_class e = ValueError"
  by (auto simp: check_source_list_def split: if_splits option.splits dest: check_items_class)

lemma init_class:
  "AlphaModel_init existing_sources model_id sources = Inl e \<Longrightarrow>
   exn_class e = TypeError \<or> exn_class e = ValueError"
  by (auto simp: AlphaModel_init_def split: sum.splits dest: check_source_list_class)

lemma init_attributes:
  "AlphaModel_init existing_sources model_id sources = Inr self \<Longrightarrow>
   id_attr self = model_id \<and> sources_dict self = sources \<and> name_attr self = Atom PyNone"
  by (auto simp: AlphaModel_init_def check_source_list_def
      split: sum.splits option.splits if_splits)

lemma name_get_class: "fst (name_get self) = Inl e \<Longrightarrow> exn_class e = ValueError"
  by (auto simp: name_get_def split: if_splits)

lemma name_set_class: "fst (name_set self v) = Inl e \<Longrightarrow> exn_class e = ValueError"
  by (auto simp: name_set_def split: if_splits)

lemma builtin_caught:
  "exn_class e = TypeError \<or> exn_class e = ValueError \<Longrightarrow>
   catches Exception e \<and> \<not> catches AlphaModelException e"
  by (auto simp: catches_def issubclass_builtin)

lemma run_frame:
  "id_attr (run self calls) = id_attr self \<and>
   sources_dict (run self calls) = sources_dict self"
  unfolding run_def
proof (induction calls arbitrary: self)
  case Nil
  show ?case by simp
next
  case (Cons c calls)
  have "id_attr (step self c) = id_attr self \<and> sources_dict (step self c) = sources_dict self"
    by (cases c) (simp_all add: name_get_def name_set_def update_def forecast_def)
  with Cons.IH [of "step self c"] show ?case by simp
qed

lemma init_momentum:
  "AlphaModel_init registry (Atom (PyInt 1)) (PyDict momentum_config) = Inr momentum_model"
  by (simp add: AlphaModel_init_def check_source_list_def momentum_config_def
      momentum_model_def registry_def)

lemma init_bogus:
  "AlphaModel_init registry (Atom (PyInt 1)) (PyDict bogus_config) =
     Inl (Exn ValueError ''Source bogus_source does not exist!'')"
  by (simp add: AlphaModel_init_def check_source_list_def bogus_config_def registry_def)

text \<open>
  The bodies that \<open>AlphaModel\<close> gives \<open>update\<close> and \<open>forecast\<close> raise
  \<open>NotImplementedError\<close> and leave the instance as it is.
\<close>

lemma base_methods_not_implemented:
  "update self dt = (Inl (Exn NotImplementedError ''Should implement update()''), self) \<and>
   forecast self = (Inl (Exn NotImplementedError ''Should implement forecast()''), self) \<and>
   \<not> catches AlphaModelException (Exn NotImplementedError ''Should implement update()'')"
  by (simp add: update_def forecast_def catches_def issubclass.simps)

section \<open>Construction\<close>

text \<open>
  C1. For every mapping \<open>m\<close> all of whose keys are existing sources, validation returns
  \<open>m\<close> itself and construction succeeds with \<open>sources_dict\<close> equal to \<open>m\<close> (and with the
  given id and an unset name). Construction is \<open>AlphaModel.__init__\<close>, which the concrete
  subclasses inherit.
\<close>

theorem init_registered_succeeds:
  assumes "\<forall>k \<in> fst ` set m. existing_sources k"
  shows "check_source_list existing_sources (PyDict m) = Inr (PyDict m) \<and>
         AlphaModel_init existing_sources model_id (PyDict m) =
           Inr \<lparr>id_attr = model_id, sources_dict = PyDict m, name_attr = Atom PyNone\<rparr>"
proof -
  from assms have "check_items existing_sources m = None"
    by (intro check_items_all_existing) blast
  then show ?thesis
    by (simp add: AlphaModel_init_def check_source_list_def)
qed

theorem init_registered_succeeds_witness:
  "registry (PyStr ''momentum_factor'') \<and>
   AlphaModel_init registry (Atom (PyInt 1)) (PyDict momentum_config) = Inr momentum_model \<and>
   sources_dict momentum_model = PyDict momentum_config"
  using init_registered_succeeds [of momentum_config registry "Atom (PyInt 1)"]
  by (simp add: momentum_config_def momentum_model_def registry_def)

text \<open>
  C2. For every mapping \<open>m\<close> with at least one key that is not an existing source,
  construction fails with a \<open>ValueError\<close> (the spec's \<open>UnknownSourceError\<close>) whose message
  \<open>Source ... does not exist!\<close> names a key of \<open>m\<close> that is not an existing source; no
  instance results.
\<close>

theorem init_unknown_source_fails:
  assumes "k \<in> fst ` set m" and "\<not> existing_sources k"
  shows "\<exists>k'. k' \<in> fst ` set m \<and> \<not> existing_sources k' \<and>
           AlphaModel_init existing_sources model_id (PyDict m) =
             Inl (Exn ValueError (''Source '' @ py_str k' @ '' does not exist!''))"
proof -
  from assms check_items_some_missing [of k m existing_sources] obtain k' where
    "k' \<in> fst ` set m" "\<not> existing_sources k'"
    "check_items existing_sources m =
       Some (Exn ValueError (''Source '' @ py_str k' @ '' does not exist!''))"
    by blast
  then show ?thesis
    by (auto simp: AlphaModel_init_def check_source_list_def)
qed

theorem init_unknown_source_fails_witness:
  "\<not> registry (PyStr ''bogus_source'') \<and>
   AlphaModel_init registry (Atom (PyInt 1)) (PyDict bogus_config) =
     Inl (Exn ValueError ''Source bogus_source does not exist!'')"
  using init_unknown_source_fails
    [of "PyStr ''bogus_source''" bogus_config registry "Atom (PyInt 1)"]
  by (simp add: bogus_config_def registry_def AlphaModel_init_def check_source_list_def)

text \<open>
  C3. For every input that is not a dictionary, construction fails with a \<open>TypeError\<close>
  (the spec's \<open>TypeConfigurationError\<close>), and it does so whatever the registry answers:
  no key is looked up.
\<close>

theorem init_non_mapping_fails:
  assumes "\<not> isinstance_dict sources"
  shows "AlphaModel_init existing_sources model_id sources =
           Inl (Exn TypeError
             ''Alpha Model needs to be given a dictionary of sources and their parameters'') \<and>
         AlphaModel_init existing_sources model_id sources =
           AlphaModel_init other_sources model_id sources"
  using assms by (simp add: AlphaModel_init_def check_source_list_def)

theorem init_non_mapping_fails_witness:
  "\<not> isinstance_dict (PyList [Atom (PyStr ''momentum_factor'')]) \<and>
   AlphaModel_init registry (Atom (PyInt 1)) (PyList [Atom (PyStr ''momentum_factor'')]) =
     Inl (Exn TypeError
       ''Alpha Model needs to be given a dictionary of sources and their parameters'') \<and>
   \<not> isinstance_dict (Atom (PyInt 3)) \<and>
   AlphaModel_init registry (Atom (PyInt 1)) (Atom (PyInt 3)) =
     Inl (Exn TypeError
       ''Alpha Model needs to be given a dictionary of sources and their parameters'')"
  using init_non_mapping_fails
    [of "PyList [Atom (PyStr ''momentum_factor'')]" registry "Atom (PyInt 1)"]
    init_non_mapping_fails [of "Atom (PyInt 3)" registry "Atom (PyInt 1)"]
  by simp

section \<open>The error classes\<close>

text \<open>
  C4, as stated: every error of the contract is a subtype of the module's base class
  \<open>AlphaModelException\<close>, so a handler for it catches the error of every violating
  call. This fails: each of the four violations raises a built-in \<open>TypeError\<close> or
  \<open>ValueError\<close>, which \<open>except AlphaModelException\<close> does not catch.
\<close>

theorem base_handler_counterexample:
  "AlphaModel_init registry (Atom (PyInt 1)) (Atom (PyInt 3)) =
     Inl (Exn TypeError
       ''Alpha Model needs to be given a dictionary of sources and their parameters'') \<and>
   \<not> catches AlphaModelException (Exn TypeError
       ''Alpha Model needs to be given a dictionary of sources and their parameters'') \<and>
   AlphaModel_init registry (Atom (PyInt 1)) (PyDict bogus_config) =
     Inl (Exn ValueError ''Source bogus_source does not exist!'') \<and>
   \<not> catches AlphaModelException (Exn ValueError ''Source bogus_source does not exist!'') \<and>
   fst (name_get momentum_model) = Inl (Exn ValueError ''Name has not been set.'') \<and>
   \<not> catches AlphaModelException (Exn ValueError ''Name has not been set.'') \<and>
   fst (name_set momentum_model (Atom (PyInt 5))) =
     Inl (Exn ValueError ''Name has to be a string and not <class 'int'>'') \<and>
   \<not> catches AlphaModelException
     (Exn ValueError ''Name has to be a string and not <class 'int'>'')"
  by (simp add: AlphaModel_init_def check_source_list_def bogus_config_def registry_def
      name_get_def name_set_def momentum_model_def catches_def issubclass_builtin)

text \<open>
  C4, amended: every error raised by construction, by reading \<open>name\<close> or by assigning
  \<open>name\<close> is a built-in \<open>TypeError\<close> or \<open>ValueError\<close> (\<open>ValueError\<close> for the two \<open>name\<close>
  operations); each is a subtype of the built-in \<open>Exception\<close> and none is a subtype of
  \<open>AlphaModelException\<close>, whose direct base class is \<open>Exception\<close>. So a handler for
  \<open>Exception\<close> catches the error of every violating call, and a handler for
  \<open>AlphaModelException\<close> catches none of them.
\<close>

theorem raised_errors_builtin:
  "superclass AlphaModelException = Some Exception \<and>
   (AlphaModel_init existing_sources model_id sources = Inl e1 \<longrightarrow>
      (exn_class e1 = TypeError \<or> exn_class e1 = ValueError) \<and>
      catches Exception e1 \<and> \<not> catches AlphaModelException e1) \<and>
   (fst (name_get self) = Inl e2 \<longrightarrow>
      exn_class e2 = ValueError \<and> catches Exception e2 \<and> \<not> catches AlphaModelException e2) \<and>
   (fst (name_set self v) = Inl e3 \<longrightarrow>
      exn_class e3 = ValueError \<and> catches Exception e3 \<and> \<not> catches AlphaModelException e3)"
  using init_class [of existing_sources model_id sources e1]
    name_get_class [of self e2] name_set_class [of self v e3]
    builtin_caught [of e1] builtin_caught [of e2] builtin_caught [of e3]
  by auto

theorem raised_errors_builtin_witness:
  "AlphaModel_init registry (Atom (PyInt 1)) (PyDict bogus_config) =
     Inl (Exn ValueError ''Source bogus_source does not exist!'') \<and>
   catches Exception (Exn ValueError ''Source bogus_source does not exist!'') \<and>
   \<not> catches AlphaModelException (Exn ValueError ''Source bogus_source does not exist!'') \<and>
   fst (name_get momentum_model) = Inl (Exn ValueError ''Name has not been set.'') \<and>
   catches Exception (Exn ValueError ''Name has not been set.'') \<and>
   \<not> catches AlphaModelException (Exn ValueError ''Name has not been set.'') \<and>
   fst (name_set momentum_model (Atom (PyInt 5))) =
     Inl (Exn ValueError ''Name has to be a string and not <class 'int'>'') \<and>
   catches Exception (Exn ValueError ''Name has to be a string and not <class 'int'>'') \<and>
   \<not> catches AlphaModelException
     (Exn ValueError ''Name has to be a string and not <class 'int'>'')"
proof -
  have b: "fst (name_get momentum_model) = Inl (Exn ValueError ''Name has not been set.'')"
    by (simp add: name_get_def momentum_model_def)
  have c: "fst (name_set momentum_model (Atom (PyInt 5))) =
     Inl (Exn ValueError ''Name has to be a string and not <class 'int'>'')"
    by (simp add: name_set_def)
  from init_bogus b c raised_errors_builtin [of registry "Atom (PyInt 1)" "PyDict bogus_config"
      "Exn ValueError ''Source bogus_source does not exist!''" momentum_model
      "Exn ValueError ''Name has not been set.''" "Atom (PyInt 5)"
      "Exn ValueError ''Name has to be a string and not <class 'int'>''"]
  show ?thesis by blast
qed

section \<open>The name property\<close>

text \<open>
  C5. Reading \<open>name\<close> on a freshly constructed model fails with the \<open>ValueError\<close>
  \<open>Name has not been set.\<close> (the spec's \<open>NameNotSetError\<close>), and leaves the model as
  it is.
\<close>

theorem fresh_name_not_set:
  assumes "AlphaModel_init existing_sources model_id sources = Inr self"
  shows "name_get self = (Inl (Exn ValueError ''Name has not been set.''), self)"
  using init_attributes [OF assms] by (simp add: name_get_def)

theorem fresh_name_not_set_witness:
  "AlphaModel_init registry (Atom (PyInt 1)) (PyDict momentum_config) = Inr momentum_model \<and>
   name_get momentum_model = (Inl (Exn ValueError ''Name has not been set.''), momentum_model)"
  using init_momentum fresh_name_not_set [OF init_momentum] by simp

text \<open>
  C6. For every string \<open>v\<close> and every state of the model, assigning \<open>v\<close> to \<open>name\<close>
  succeeds and reading \<open>name\<close> afterwards returns \<open>v\<close>.
\<close>

theorem name_set_then_get:
  "fst (name_set self (Atom (PyStr v))) = Inr () \<and>
   fst (name_get (snd (name_set self (Atom (PyStr v))))) = Inr (Atom (PyStr v))"
  by (simp add: name_set_def name_get_def)

theorem name_set_then_get_witness:
  "fst (name_set momentum_model (Atom (PyStr ''MomentumV1''))) = Inr () \<and>
   snd (name_set momentum_model (Atom (PyStr ''MomentumV1''))) = named_model \<and>
   fst (name_get named_model) = Inr (Atom (PyStr ''MomentumV1''))"
  using name_set_then_get [of momentum_model "''MomentumV1''"]
  by (simp add: name_set_def named_model_def)

text \<open>
  C7. For every value \<open>v\<close> that is not a string and every state of the model, assigning
  \<open>v\<close> to \<open>name\<close> fails with a \<open>ValueError\<close> (the spec's \<open>InvalidNameTypeError\<close>) whose
  message gives the type of \<open>v\<close>, and the model after the call is the model before it:
  \<open>_name\<close> keeps its prior state, unset or set.
\<close>

theorem name_set_rejects_non_text:
  assumes "\<not> isinstance_str v"
  shows "name_set self v =
           (Inl (Exn ValueError (''Name has to be a string and not '' @ type_str v)), self)"
  using assms by (simp add: name_set_def)

theorem name_set_rejects_non_text_witness:
  "\<not> isinstance_str (Atom (PyInt 5)) \<and>
   name_set named_model (Atom (PyInt 5)) =
     (Inl (Exn ValueError ''Name has to be a string and not <class 'int'>''), named_model) \<and>
   \<not> isinstance_str (PyDict []) \<and>
   name_set momentum_model (PyDict []) =
     (Inl (Exn ValueError ''Name has to be a string and not <class 'dict'>''), momentum_model)"
  using name_set_rejects_non_text [of "Atom (PyInt 5)" named_model]
    name_set_rejects_non_text [of "PyDict []" momentum_model]
  by simp

section \<open>Frame\<close>

text \<open>
  C8. After a successful construction, no sequence of calls of the \<open>name\<close> getter and
  setter (succeeding or failing; the base bodies of \<open>update\<close> and \<open>forecast\<close> are
  covered as well) changes \<open>id\<close> or \<open>sources_dict\<close>: both keep the values given at
  construction.
\<close>

theorem calls_keep_id_and_sources:
  assumes "AlphaModel_init existing_sources model_id sources = Inr self"
  shows "id_attr (run self calls) = model_id \<and> sources_dict (run self calls) = sources"
  using init_attributes [OF assms] run_frame [of self calls] by simp

theorem calls_keep_id_and_sources_witness:
  "AlphaModel_init registry (Atom (PyInt 1)) (PyDict momentum_config) = Inr momentum_model \<and>
   run momentum_model
     [GetName, SetName (Atom (PyInt 5)), SetName (Atom (PyStr ''MomentumV1'')), GetName] =
     named_model \<and>
   id_attr named_model = Atom (PyInt 1) \<and>
   sources_dict named_model = PyDict momentum_config"
proof -
  have b: "run momentum_model
     [GetName, SetName (Atom (PyInt 5)), SetName (Atom (PyStr ''MomentumV1'')), GetName] =
     named_model"
    by (simp add: run_def name_get_def name_set_def named_model_def)
  from init_momentum b calls_keep_id_and_sources [OF init_momentum,
      of "[GetName, SetName (Atom (PyInt 5)), SetName (Atom (PyStr ''MomentumV1'')), GetName]"]
  show ?thesis by simp
qed

section \<open>Validation reads keys only\<close>

text \<open>
  C10. Validation depends on the keys of the mapping only: two mappings with the same
  keys in the same order validate alike (the same error, or both succeed), whatever
  their parameter values; when every key is an existing source, construction succeeds
  after the values are replaced by arbitrary ones; and the empty mapping always
  validates.
\<close>

theorem validation_reads_keys_only:
  "(map fst m = map fst m' \<longrightarrow>
      map_sum id (\<lambda>r. ()) (check_source_list existing_sources (PyDict m)) =
      map_sum id (\<lambda>r. ()) (check_source_list existing_sources (PyDict m'))) \<and>
   ((\<forall>k \<in> fst ` set m. existing_sources k) \<longrightarrow>
      AlphaModel_init existing_sources model_id (PyDict (map (\<lambda>(k, p). (k, f k p)) m)) =
        Inr \<lparr>id_attr = model_id, sources_dict = PyDict (map (\<lambda>(k, p). (k, f k p)) m),
             name_attr = Atom PyNone\<rparr>) \<and>
   AlphaModel_init existing_sources model_id (PyDict []) =
     Inr \<lparr>id_attr = model_id, sources_dict = PyDict [], name_attr = Atom PyNone\<rparr>"
proof -
  have keys: "map fst (map (\<lambda>(k, p). (k, f k p)) m) = map fst m"
    by (induction m) auto
  have a: "map fst m = map fst m' \<Longrightarrow>
      map_sum id (\<lambda>r. ()) (check_source_list existing_sources (PyDict m)) =
      map_sum id (\<lambda>r. ()) (check_source_list existing_sources (PyDict m'))"
    using check_items_keys_only [of m m' existing_sources]
    by (simp add: check_source_list_def split: option.splits)
  have b: "AlphaModel_init existing_sources model_id (PyDict (map (\<lambda>(k, p). (k, f k p)) m)) =
        Inr \<lparr>id_attr = model_id, sources_dict = PyDict (map (\<lambda>(k, p). (k, f k p)) m),
             name_attr = Atom PyNone\<rparr>"
    if "\<forall>k \<in> fst ` set m. existing_sources k"
  proof -
    from that have "check_items existing_sources m = None"
      by (intro check_items_all_existing) blast
    with check_items_keys_only [OF keys, of existing_sources]
    show ?thesis by (simp add: AlphaModel_init_def check_source_list_def)
  qed
  have c: "AlphaModel_init existing_sources model_id (PyDict []) =
     Inr \<lparr>id_attr = model_id, sources_dict = PyDict [], name_attr = Atom PyNone\<rparr>"
    by (simp add: AlphaModel_init_def check_source_list_def)
  from a b c show ?thesis by blast
qed

theorem validation_reads_keys_only_witness:
  "check_source_list registry (PyDict [(PyStr ''sentiment'', Atom PyNone)]) =
     Inr (PyDict [(PyStr ''sentiment'', Atom PyNone)]) \<and>
   check_source_list registry (PyDict [(PyStr ''sentiment'', PyList [Atom (PyInt 3)])]) =
     Inr (PyDict [(PyStr ''sentiment'', PyList [Atom (PyInt 3)])]) \<and>
   registry (PyStr ''sentiment'') \<and>
   AlphaModel_init registry (Atom (PyInt 2)) (PyDict [(PyStr ''sentiment'', PyDict [])]) =
     Inr \<lparr>id_attr = Atom (PyInt 2), sources_dict = PyDict [(PyStr ''sentiment'', PyDict [])],
          name_attr = Atom PyNone\<rparr> \<and>
   AlphaModel_init registry (Atom (PyInt 2)) (PyDict []) =
     Inr \<lparr>id_attr = Atom (PyInt 2), sources_dict = PyDict [], name_attr = Atom PyNone\<rparr>"
  using validation_reads_keys_only [of "[(PyStr ''sentiment'', Atom PyNone)]"
      "[(PyStr ''sentiment'', PyList [Atom (PyInt 3)])]" registry "Atom (PyInt 2)"
      "\<lambda>k p. PyDict []"]
  by (simp add: check_source_list_def registry_def AlphaModel_init_def)

end
